theory Spec2Isabelle
  imports Main "HOL-Library.Sublist"
begin

section \<open>Data model\<close>

text \<open>
  The entities of \<^verbatim>\<open>Recommendations.jsx\<close>. A flight and a recommendation are the JSON
  objects of the backend; only the fields the page reads are kept. The numeric
  \<^verbatim>\<open>compositeScore\<close> is only displayed, it is kept as an integer.
\<close>

record flight =
  flightNumber :: string
  route :: string
  aircraft :: string
  departure :: string
  crewRequired :: int
  crewAssigned :: int

record recommendation =
  emp_id :: string
  name :: string
  designation :: string
  baseLocation :: string
  compositeScore :: int
  rank :: int

text \<open>The object passed to \<^verbatim>\<open>setAssignSuccess\<close>: \<^verbatim>\<open>{crewName, flightNumber}\<close>.\<close>

record success_notice =
  crewName :: string
  noticeFlightNumber :: string

section \<open>The API client\<close>

datatype http_method = GET | POST

text \<open>
  One axios call: method, URL, and the JSON object sent as body (a list of
  key/value pairs), absent for \<^verbatim>\<open>axios.get\<close>.
\<close>

record http_request =
  verb :: http_method
  url :: string
  body :: "(string \<times> string) list option"

definition API_BASE :: string where
  "API_BASE = ''http://localhost:5000/api''"

definition axios_get :: "string \<Rightarrow> http_request" where
  "axios_get u = \<lparr>verb = GET, url = u, body = None\<rparr>"

definition axios_post :: "string \<Rightarrow> (string \<times> string) list \<Rightarrow> http_request" where
  "axios_post u d = \<lparr>verb = POST, url = u, body = Some d\<rparr>"

definition getDashboardStats :: http_request where
  "getDashboardStats = axios_get (API_BASE @ ''/dashboard/stats'')"

definition getAllFlights :: http_request where
  "getAllFlights = axios_get (API_BASE @ ''/flights'')"

definition getFlightById :: "string \<Rightarrow> http_request" where
  "getFlightById flightNo = axios_get (API_BASE @ ''/flights/'' @ flightNo)"

definition getAllCrew :: http_request where
  "getAllCrew = axios_get (API_BASE @ ''/crew'')"

definition getCrewById :: "string \<Rightarrow> http_request" where
  "getCrewById empId = axios_get (API_BASE @ ''/crew/'' @ empId)"

definition getRecommendations :: "string \<Rightarrow> http_request" where
  "getRecommendations flightNo = axios_get (API_BASE @ ''/recommendations/'' @ flightNo)"

definition assignCrewToFlight :: "string \<Rightarrow> string \<Rightarrow> http_request" where
  "assignCrewToFlight empId flightNo =
     axios_post (API_BASE @ ''/crew/'' @ empId @ ''/assign'') [(''flight_number'', flightNo)]"

definition healthCheck :: http_request where
  "healthCheck = axios_get (API_BASE @ ''/health'')"

text \<open>
  The members of the exported \<^verbatim>\<open>api\<close> object, and the requests one call of a member
  issues, in order.
\<close>

datatype api_call =
    GetDashboardStats
  | GetAllFlights
  | GetFlightById string
  | GetAllCrew
  | GetCrewById string
  | GetRecommendations string
  | AssignCrewToFlight string string
  | HealthCheck

fun api :: "api_call \<Rightarrow> http_request list" where
  "api GetDashboardStats = [getDashboardStats]"
| "api GetAllFlights = [getAllFlights]"
| "api (GetFlightById flightNo) = [getFlightById flightNo]"
| "api GetAllCrew = [getAllCrew]"
| "api (GetCrewById empId) = [getCrewById empId]"
| "api (GetRecommendations flightNo) = [getRecommendations flightNo]"
| "api (AssignCrewToFlight empId flightNo) = [assignCrewToFlight empId flightNo]"
| "api HealthCheck = [healthCheck]"

subsection \<open>The capability table of the specification\<close>

text \<open>
  Written from the table of the specification (section 4.1), not from the code: seven
  capabilities, each a method, a path template and a body, against the base address.
\<close>

datatype capability =
    ListFlights
  | GetFlight string
  | ListCrew
  | GetCrew string
  | GetRecs string
  | AssignCrew string string
  | HealthProbe

fun table_method :: "capability \<Rightarrow> http_method" where
  "table_method (AssignCrew empId flightNo) = POST"
| "table_method c = GET"

fun table_path :: "capability \<Rightarrow> string" where
  "table_path ListFlights = ''/flights''"
| "table_path (GetFlight flightNo) = ''/flights/'' @ flightNo"
| "table_path ListCrew = ''/crew''"
| "table_path (GetCrew empId) = ''/crew/'' @ empId"
| "table_path (GetRecs flightNo) = ''/recommendations/'' @ flightNo"
| "table_path (AssignCrew empId flightNo) = ''/crew/'' @ empId @ ''/assign''"
| "table_path HealthProbe = ''/health''"

fun table_body :: "capability \<Rightarrow> (string \<times> string) list option" where
  "table_body (AssignCrew empId flightNo) = Some [(''flight_number'', flightNo)]"
| "table_body c = None"

definition table_request :: "capability \<Rightarrow> http_request" where
  "table_request c =
     \<lparr>verb = table_method c, url = ''http://localhost:5000/api'' @ table_path c, body = table_body c\<rparr>"

text \<open>
  Whether a request is an instance of some row of the table: the method and the body
  shape of the row, and a URL that is the base address followed by the row's path
  with its placeholder filled by any string.
\<close>

definition in_capability_table :: "http_request \<Rightarrow> bool" where
  "in_capability_table r =
     (let base = ''http://localhost:5000/api''; u = url r in
      (verb r = GET \<and> body r = None \<and>
         (u = base @ ''/flights'' \<or> prefix (base @ ''/flights/'') u \<or>
          u = base @ ''/crew'' \<or> prefix (base @ ''/crew/'') u \<or>
          prefix (base @ ''/recommendations/'') u \<or>
          u = base @ ''/health''))
      \<or>
      (verb r = POST \<and>
         prefix (base @ ''/crew/'') u \<and> suffix ''/assign'' u \<and>
         length (base @ ''/crew/'') + length ''/assign'' \<le> length u \<and>
         (case body r of Some [(k, v)] \<Rightarrow> k = ''flight_number'' | _ \<Rightarrow> False)))"

section \<open>The Recommendations view\<close>

text \<open>
  What a promise settles with. An axios failure carries an optional response, whose
  optional \<^verbatim>\<open>data\<close> object may have an \<^verbatim>\<open>error\<close> field; the backend contract
  gives that field the type string.
\<close>

record error_data =
  error :: "string option"

record error_response =
  data :: "error_data option"

record api_error =
  response :: "error_response option"

datatype 'a outcome = Resolved 'a | Rejected api_error

text \<open>
  The state of the page. The first seven fields are the \<^verbatim>\<open>useState\<close> slots of the
  component, with the names of the source. The others make the environment explicit:
  the calls that have been issued and have not settled, the timers that have been set
  and have not fired, and what the page has sent out (HTTP requests, alerts, console
  lines), oldest first.

  A continuation reads the bindings of the render that created it. \<^verbatim>\<open>confirmAssign\<close>
  reads \<^verbatim>\<open>assignModal\<close> and \<^verbatim>\<open>selectedFlight\<close> after its \<^verbatim>\<open>await\<close>, and the timer
  callback reads \<^verbatim>\<open>selectedFlight\<close>: both are \<^verbatim>\<open>const\<close> bindings of the render in
  which \<^verbatim>\<open>confirmAssign\<close> was created, so a pending assignment call carries the
  pair it captured and a pending timer the flight number it captured. The setters
  always write the current state.

  A slot holds the value last given to its setter. \<^verbatim>\<open>mounted\<close> says whether the
  component is still on the page: React removes it when its render throws. The code
  that still runs after that (continuations of pending calls, timer callbacks) calls
  the same setters and sends the same requests and alerts; it reads no slot, only what
  it captured, and what it gives the setters is no longer displayed.
\<close>

record state =
  flights :: "flight list"
  selectedFlight :: string
  recommendations :: "recommendation list"
  loading :: bool
  assignModal :: "recommendation option"
  assigning :: bool
  assignSuccess :: "success_notice option"
  mounted :: bool
  pendingFlights :: nat
  pendingRecs :: "string list"
  pendingAssign :: "(recommendation \<times> string) list"
  timers :: "(nat \<times> string) list"
  requests :: "http_request list"
  alerts :: "string list"
  console :: "string list"

definition initial :: state where
  "initial = \<lparr>flights = [], selectedFlight = [], recommendations = [], loading = False,
     assignModal = None, assigning = False, assignSuccess = None, mounted = True,
     pendingFlights = 0, pendingRecs = [], pendingAssign = [], timers = [],
     requests = [], alerts = [], console = []\<rparr>"

subsection \<open>Loading\<close>

text \<open>\<^verbatim>\<open>loadFlights\<close> up to its \<^verbatim>\<open>await\<close>, and its continuation.\<close>

definition loadFlights :: "state \<Rightarrow> state" where
  "loadFlights s = s\<lparr>pendingFlights := Suc (pendingFlights s), requests := requests s @ [getAllFlights]\<rparr>"

fun loadFlights_settle :: "flight list outcome \<Rightarrow> state \<Rightarrow> state" where
  "loadFlights_settle (Resolved d) s = s\<lparr>flights := d\<rparr>"
| "loadFlights_settle (Rejected e) s = s\<lparr>console := console s @ [''Error loading flights:'']\<rparr>"

text \<open>
  \<^verbatim>\<open>loadRecommendations\<close> up to its \<^verbatim>\<open>await\<close>: the guard on a falsy flight number
  (for a string, the empty one), \<^verbatim>\<open>setLoading(true)\<close>, then the call. Its continuation
  is the rest of the \<^verbatim>\<open>try\<close>, the \<^verbatim>\<open>catch\<close> and the \<^verbatim>\<open>finally\<close>.
\<close>

definition loadRecommendations :: "string \<Rightarrow> state \<Rightarrow> state" where
  "loadRecommendations flightNo s =
     (if flightNo = [] then s
      else s\<lparr>loading := True,
             pendingRecs := pendingRecs s @ [flightNo],
             requests := requests s @ [getRecommendations flightNo]\<rparr>)"

fun loadRecommendations_settle :: "recommendation list outcome \<Rightarrow> state \<Rightarrow> state" where
  "loadRecommendations_settle (Resolved d) s = s\<lparr>recommendations := d, loading := False\<rparr>"
| "loadRecommendations_settle (Rejected e) s =
     s\<lparr>console := console s @ [''Error loading recommendations:''],
       recommendations := [], loading := False\<rparr>"

text \<open>One whole run of \<^verbatim>\<open>loadRecommendations\<close>, the call settling with the given outcome.\<close>

definition loadRecommendations_run :: "string \<Rightarrow> recommendation list outcome \<Rightarrow> state \<Rightarrow> state" where
  "loadRecommendations_run flightNo out s =
     (if flightNo = [] then s
      else loadRecommendations_settle out (loadRecommendations flightNo s))"

subsection \<open>Selecting a flight, opening the modal\<close>

text \<open>The effect on \<^verbatim>\<open>searchParams\<close>: a truthy \<^verbatim>\<open>flight\<close> parameter selects and loads.\<close>

definition searchParamsEffect :: "string option \<Rightarrow> state \<Rightarrow> state" where
  "searchParamsEffect flightParam s =
     (case flightParam of
        None \<Rightarrow> s
      | Some f \<Rightarrow> if f = [] then s else loadRecommendations f (s\<lparr>selectedFlight := f\<rparr>))"

definition handleFlightChange :: "string \<Rightarrow> state \<Rightarrow> state" where
  "handleFlightChange f s = loadRecommendations f (s\<lparr>selectedFlight := f\<rparr>)"

definition handleAssign :: "recommendation \<Rightarrow> state \<Rightarrow> state" where
  "handleAssign rec s = s\<lparr>assignModal := Some rec\<rparr>"

subsection \<open>Confirming an assignment\<close>

text \<open>
  \<^verbatim>\<open>confirmAssign\<close> up to its \<^verbatim>\<open>await\<close>. The call that is now pending keeps the
  \<^verbatim>\<open>assignModal\<close> and the \<^verbatim>\<open>selectedFlight\<close> of this render.
\<close>

definition confirmAssign :: "state \<Rightarrow> state" where
  "confirmAssign s =
     (case assignModal s of
        None \<Rightarrow> s
      | Some m \<Rightarrow>
          s\<lparr>assigning := True,
            pendingAssign := pendingAssign s @ [(m, selectedFlight s)],
            requests := requests s @ [assignCrewToFlight (emp_id m) (selectedFlight s)]\<rparr>)"

text \<open>
  \<^verbatim>\<open>error.response?.data?.error || 'Failed to assign crew'\<close>: the optional chain is a
  bind, and \<^verbatim>\<open>||\<close> takes its right operand when the left one is undefined or is
  the empty string.
\<close>

definition js_or :: "string option \<Rightarrow> string \<Rightarrow> string" where
  "js_or v d = (case v of None \<Rightarrow> d | Some x \<Rightarrow> if x = [] then d else x)"

definition errorField :: "api_error \<Rightarrow> string option" where
  "errorField e = Option.bind (Option.bind (response e) data) error"

definition errorMsg :: "api_error \<Rightarrow> string" where
  "errorMsg e = js_or (errorField e) ''Failed to assign crew''"

text \<open>
  The rest of \<^verbatim>\<open>confirmAssign\<close>, for the call that captured \<^verbatim>\<open>(m, sf)\<close>: the
  \<^verbatim>\<open>try\<close> after the \<^verbatim>\<open>await\<close>, or the \<^verbatim>\<open>catch\<close>, then the \<^verbatim>\<open>finally\<close>. A timer is
  its delay in milliseconds and the \<^verbatim>\<open>selectedFlight\<close> its callback closes over.
\<close>

fun confirmAssign_settle :: "recommendation \<times> string \<Rightarrow> string outcome \<Rightarrow> state \<Rightarrow> state" where
  "confirmAssign_settle (m, sf) (Resolved d) s =
     s\<lparr>console := console s @ [''Assignment successful:''],
       assignSuccess := Some \<lparr>crewName = name m, noticeFlightNumber = sf\<rparr>,
       assignModal := None,
       timers := timers s @ [(3000, sf)],
       assigning := False\<rparr>"
| "confirmAssign_settle (m, sf) (Rejected e) s =
     s\<lparr>console := console s @ [''Assignment failed:''],
       alerts := alerts s @ [''Error: '' @ errorMsg e],
       assigning := False\<rparr>"

text \<open>The callback given to \<^verbatim>\<open>setTimeout\<close>, closed over \<^verbatim>\<open>sf\<close>.\<close>

definition timerCallback :: "string \<Rightarrow> state \<Rightarrow> state" where
  "timerCallback sf s = (loadRecommendations sf s)\<lparr>assignSuccess := None\<rparr>"

subsection \<open>Rendering\<close>

text \<open>
  \<^verbatim>\<open>flights.find(f => f.flightNumber === selectedFlight)\<close>, evaluated by every render.
\<close>

definition selectedFlightData :: "state \<Rightarrow> flight option" where
  "selectedFlightData s = find (\<lambda>f. flightNumber f = selectedFlight s) (flights s)"

text \<open>
  The modal block, \<^verbatim>\<open>{assignModal && (...)}\<close>, reads
  \<^verbatim>\<open>selectedFlightData.flightNumber\<close> without a guard (the heading above it is guarded
  by \<^verbatim>\<open>selectedFlight && selectedFlightData\<close>): with \<^verbatim>\<open>assignModal\<close> set and no flight
  of \<^verbatim>\<open>flights\<close> carrying the selected number, the render throws a TypeError. Nothing
  else in the render of this component can throw on values of the types above.
\<close>

definition render_throws :: "state \<Rightarrow> bool" where
  "render_throws s = (assignModal s \<noteq> None \<and> selectedFlightData s = None)"

text \<open>
  The render that follows a change of state. There is no error boundary: a render
  that throws takes the component off the page.
\<close>

definition rerender :: "state \<Rightarrow> state" where
  "rerender s = (if mounted s \<and> render_throws s then s\<lparr>mounted := False\<rparr> else s)"

text \<open>
  The modal, with its two buttons, is on the page when the component is, \<^verbatim>\<open>assignModal\<close>
  is set and the modal block rendered.
\<close>

definition modal_rendered :: "state \<Rightarrow> bool" where
  "modal_rendered s = (mounted s \<and> assignModal s \<noteq> None \<and> selectedFlightData s \<noteq> None)"

subsection \<open>The page as a transition system\<close>

text \<open>
  What can happen to a page: a pending call settles, the URL's parameters change, the
  user picks a flight, presses Assign on a card, presses Cancel or Confirm in the
  modal, or a pending timer fires. Pending calls and timers are named by their
  position. What the user and the router do needs the component on the page; the two
  buttons of the modal need the modal rendered, and both carry
  \<^verbatim>\<open>disabled={assigning}\<close>. Settlements and timers need nothing: they run whether the
  component is on the page or not. Every change of state is followed by a render. An
  event that cannot happen in a state has no successor.
\<close>

datatype event =
    FlightsSettled "flight list outcome"
  | SearchParams "string option"
  | FlightChange string
  | RecsSettled nat "recommendation list outcome"
  | AssignClick recommendation
  | CancelClick
  | ConfirmClick
  | AssignSettled nat "string outcome"
  | TimerFired nat

definition remove_nth :: "nat \<Rightarrow> 'a list \<Rightarrow> 'a list" where
  "remove_nth i xs = take i xs @ drop (Suc i) xs"

fun step :: "event \<Rightarrow> state \<Rightarrow> state option" where
  "step (FlightsSettled out) s =
     (if 0 < pendingFlights s
      then Some (rerender (loadFlights_settle out (s\<lparr>pendingFlights := pendingFlights s - 1\<rparr>)))
      else None)"
| "step (SearchParams p) s =
     (if mounted s then Some (rerender (searchParamsEffect p s)) else None)"
| "step (FlightChange f) s =
     (if mounted s then Some (rerender (handleFlightChange f s)) else None)"
| "step (RecsSettled i out) s =
     (if i < length (pendingRecs s)
      then Some (rerender (loadRecommendations_settle out
                   (s\<lparr>pendingRecs := remove_nth i (pendingRecs s)\<rparr>)))
      else None)"
| "step (AssignClick rec) s =
     (if mounted s then Some (rerender (handleAssign rec s)) else None)"
| "step CancelClick s =
     (if modal_rendered s \<and> \<not> assigning s then Some (rerender (s\<lparr>assignModal := None\<rparr>))
      else None)"
| "step ConfirmClick s =
     (if modal_rendered s \<and> \<not> assigning s then Some (rerender (confirmAssign s)) else None)"
| "step (AssignSettled i out) s =
     (if i < length (pendingAssign s)
      then Some (rerender (confirmAssign_settle (pendingAssign s ! i) out
                   (s\<lparr>pendingAssign := remove_nth i (pendingAssign s)\<rparr>)))
      else None)"
| "step (TimerFired i) s =
     (if i < length (timers s)
      then Some (rerender (timerCallback (snd (timers s ! i))
                   (s\<lparr>timers := remove_nth i (timers s)\<rparr>)))
      else None)"

fun run :: "event list \<Rightarrow> state \<Rightarrow> state option" where
  "run [] s = Some s"
| "run (e # es) s = (case step e s of None \<Rightarrow> None | Some s' \<Rightarrow> run es s')"

text \<open>Mounting runs the two effects in order: \<^verbatim>\<open>loadFlights()\<close>, then the one on \<^verbatim>\<open>searchParams\<close>.\<close>

definition mount :: "string option \<Rightarrow> state" where
  "mount flightParam = searchParamsEffect flightParam (loadFlights initial)"

subsection \<open>The scenario of the specification\<close>

definition AI101 :: flight where
  "AI101 = \<lparr>flightNumber = ''AI101'', route = ''DEL-BOM'', aircraft = ''A320'',
     departure = ''06:00'', crewRequired = 6, crewAssigned = 4\<rparr>"

definition AI202 :: flight where
  "AI202 = \<lparr>flightNumber = ''AI202'', route = ''BOM-BLR'', aircraft = ''B737'',
     departure = ''09:30'', crewRequired = 5, crewAssigned = 5\<rparr>"

definition E1 :: recommendation where
  "E1 = \<lparr>emp_id = ''E1'', name = ''Asha Rao'', designation = ''Captain'',
     baseLocation = ''DEL'', compositeScore = 88, rank = 1\<rparr>"

definition server_refusal :: api_error where
  "server_refusal = \<lparr>response = Some \<lparr>data = Some \<lparr>error = Some ''Crew already assigned''\<rparr>\<rparr>\<rparr>"

definition empty_refusal :: api_error where
  "empty_refusal = \<lparr>response = Some \<lparr>data = Some \<lparr>error = Some []\<rparr>\<rparr>\<rparr>"

text \<open>The page with AI101 selected, its recommendations loaded and the modal open on E1.\<close>

definition modal_open :: state where
  "modal_open = initial\<lparr>flights := [AI101], selectedFlight := ''AI101'',
     recommendations := [E1], assignModal := Some E1\<rparr>"

text \<open>
  The flights arrive, the user selects AI101, the recommendations arrive, the user
  presses Assign on E1 and confirms: the assignment call is now pending.
\<close>

definition confirm_scenario :: "event list" where
  "confirm_scenario =
     [FlightsSettled (Resolved [AI101, AI202]), FlightChange ''AI101'',
      RecsSettled 0 (Resolved [E1]), AssignClick E1, ConfirmClick]"

text \<open>
  Then the call succeeds and, before the timer fires, the user selects AI202; at last
  the timer fires.
\<close>

definition selection_changed :: "event list" where
  "selection_changed =
     confirm_scenario @ [AssignSettled 0 (Resolved ''ok''), FlightChange ''AI202'']"

definition reload_scenario :: "event list" where
  "reload_scenario = selection_changed @ [TimerFired 0]"

subsection \<open>An invariant of the page\<close>

text \<open>
  \<^verbatim>\<open>assigning\<close> is true exactly while one assignment call is pending, and then the
  modal is open.
\<close>

definition assign_inv :: "state \<Rightarrow> bool" where
  "assign_inv s =
     (if assigning s then length (pendingAssign s) = 1 \<and> assignModal s \<noteq> None
      else pendingAssign s = [])"

text \<open>The POST requests among the requests sent.\<close>

definition posts :: "http_request list \<Rightarrow> http_request list" where
  "posts rs = filter (\<lambda>r. verb r = POST) rs"

subsection \<open>Following a pending call and a pending timer\<close>

definition settles_assignment :: "event \<Rightarrow> bool" where
  "settles_assignment e = (case e of AssignSettled i out \<Rightarrow> True | _ \<Rightarrow> False)"

text \<open>
  Where the timer at position \<open>k\<close> is after an event: firing it removes it, firing an
  earlier one moves it down by one, nothing else moves it.
\<close>

fun timer_shift :: "nat \<Rightarrow> event \<Rightarrow> nat option" where
  "timer_shift k (TimerFired j) = (if j = k then None else if j < k then Some (k - 1) else Some k)"
| "timer_shift k e = Some k"

fun timer_position :: "nat \<Rightarrow> event list \<Rightarrow> nat option" where
  "timer_position k [] = Some k"
| "timer_position k (e # es) =
     (case timer_shift k e of None \<Rightarrow> None | Some k' \<Rightarrow> timer_position k' es)"

text \<open>
  Pieces of a run in which the selection changes while the call is pending: up to the
  open modal, between Confirm and the settlement, and between the settlement and the
  timer.
\<close>

definition before_confirm :: "event list" where
  "before_confirm =
     [FlightsSettled (Resolved [AI101, AI202]), FlightChange ''AI101'',
      RecsSettled 0 (Resolved [E1]), AssignClick E1]"

definition while_pending :: "event list" where
  "while_pending = [FlightChange ''AI202'']"

definition before_timer :: "event list" where
  "before_timer = [RecsSettled 0 (Resolved [])]"

section \<open>Properties\<close>

lemmas scenario_defs =
  confirm_scenario_def selection_changed_def reload_scenario_def
  mount_def initial_def loadFlights_def searchParamsEffect_def handleFlightChange_def
  loadRecommendations_def handleAssign_def confirmAssign_def timerCallback_def remove_nth_def
  AI101_def AI202_def E1_def
  rerender_def render_throws_def selectedFlightData_def modal_rendered_def
  before_confirm_def while_pending_def before_timer_def

lemma rerender_slots [simp]:
  "flights (rerender s) = flights s"
  "selectedFlight (rerender s) = selectedFlight s"
  "recommendations (rerender s) = recommendations s"
  "loading (rerender s) = loading s"
  "assignModal (rerender s) = assignModal s"
  "assigning (rerender s) = assigning s"
  "assignSuccess (rerender s) = assignSuccess s"
  by (simp_all add: rerender_def)

lemma rerender_environment [simp]:
  "pendingFlights (rerender s) = pendingFlights s"
  "pendingRecs (rerender s) = pendingRecs s"
  "pendingAssign (rerender s) = pendingAssign s"
  "timers (rerender s) = timers s"
  "requests (rerender s) = requests s"
  "alerts (rerender s) = alerts s"
  "console (rerender s) = console s"
  by (simp_all add: rerender_def)

lemma rerender_no_modal: "assignModal s = None \<Longrightarrow> rerender s = s"
  by (simp add: rerender_def render_throws_def)

lemma remove_nth_single: "length xs = 1 \<Longrightarrow> i < length xs \<Longrightarrow> remove_nth i xs = []"
  by (cases xs) (auto simp: remove_nth_def)

lemma loadRecommendations_assign [simp]:
  "assigning (loadRecommendations f s) = assigning s"
  "pendingAssign (loadRecommendations f s) = pendingAssign s"
  "assignModal (loadRecommendations f s) = assignModal s"
  by (simp_all add: loadRecommendations_def)

lemma step_inv: "assign_inv s \<Longrightarrow> step e s = Some s' \<Longrightarrow> assign_inv s'"
proof (cases e)
  case (FlightsSettled out)
  assume "assign_inv s" "step e s = Some s'"
  with FlightsSettled show ?thesis
    by (cases out) (auto simp: assign_inv_def split: if_splits)
next
  case (SearchParams p)
  assume "assign_inv s" "step e s = Some s'"
  with SearchParams show ?thesis
    by (auto simp: assign_inv_def searchParamsEffect_def split: if_splits option.splits)
next
  case (FlightChange f)
  assume "assign_inv s" "step e s = Some s'"
  with FlightChange show ?thesis
    by (auto simp: assign_inv_def handleFlightChange_def split: if_splits)
next
  case (RecsSettled i out)
  assume "assign_inv s" "step e s = Some s'"
  with RecsSettled show ?thesis
    by (cases out) (auto simp: assign_inv_def split: if_splits)
next
  case (AssignClick r)
  assume "assign_inv s" "step e s = Some s'"
  with AssignClick show ?thesis
    by (auto simp: assign_inv_def handleAssign_def split: if_splits)
next
  case CancelClick
  assume "assign_inv s" "step e s = Some s'"
  with CancelClick show ?thesis
    by (auto simp: assign_inv_def modal_rendered_def split: if_splits)
next
  case ConfirmClick
  assume "assign_inv s" "step e s = Some s'"
  with ConfirmClick show ?thesis
    by (auto simp: assign_inv_def confirmAssign_def modal_rendered_def split: if_splits)
next
  case (AssignSettled i out)
  assume a: "assign_inv s" "step e s = Some s'"
  with AssignSettled have i: "i < length (pendingAssign s)"
    by (auto split: if_splits)
  with a(1) have "length (pendingAssign s) = 1"
    by (auto simp: assign_inv_def split: if_splits)
  then have "remove_nth i (pendingAssign s) = []"
    using i by (rule remove_nth_single)
  with a AssignSettled i show ?thesis
    by (cases out; cases "pendingAssign s ! i") (auto simp: assign_inv_def)
next
  case (TimerFired i)
  assume "assign_inv s" "step e s = Some s'"
  with TimerFired show ?thesis
    by (auto simp: assign_inv_def timerCallback_def split: if_splits)
qed

lemma run_inv: "assign_inv s \<Longrightarrow> run evs s = Some s' \<Longrightarrow> assign_inv s'"
proof (induction evs arbitrary: s)
  case Nil
  then show ?case by simp
next
  case (Cons e evs)
  then show ?case
    by (auto split: option.splits dest: step_inv)
qed

lemma mount_inv: "assign_inv (mount p)"
  by (auto simp: mount_def assign_inv_def searchParamsEffect_def loadFlights_def initial_def
      split: option.splits)

lemma run_mount_inv: "run evs (mount p) = Some s \<Longrightarrow> assign_inv s"
  using mount_inv by (rule run_inv)

lemma loadRecommendations_posts:
  "posts (requests (loadRecommendations f s)) = posts (requests s)"
  by (simp add: posts_def loadRecommendations_def getRecommendations_def axios_get_def)

lemma step_posts:
  "assigning s \<Longrightarrow> step e s = Some s' \<Longrightarrow> posts (requests s') = posts (requests s)"
proof (cases e)
  case (FlightsSettled out)
  assume "step e s = Some s'"
  with FlightsSettled show ?thesis
    by (cases out) (auto split: if_splits)
next
  case (SearchParams p)
  assume "step e s = Some s'"
  with SearchParams show ?thesis
    by (auto simp: searchParamsEffect_def loadRecommendations_posts split: option.splits if_splits)
next
  case (FlightChange f)
  assume "step e s = Some s'"
  with FlightChange show ?thesis
    by (auto simp: handleFlightChange_def loadRecommendations_posts split: if_splits)
next
  case (RecsSettled i out)
  assume "step e s = Some s'"
  with RecsSettled show ?thesis
    by (cases out) (auto split: if_splits)
next
  case (AssignClick r)
  assume "step e s = Some s'"
  with AssignClick show ?thesis
    by (auto simp: handleAssign_def split: if_splits)
next
  case CancelClick
  assume "assigning s" "step e s = Some s'"
  with CancelClick show ?thesis
    by simp
next
  case ConfirmClick
  assume "assigning s" "step e s = Some s'"
  with ConfirmClick show ?thesis
    by simp
next
  case (AssignSettled i out)
  assume "step e s = Some s'"
  with AssignSettled show ?thesis
    by (cases out; cases "pendingAssign s ! i") (auto split: if_splits)
next
  case (TimerFired i)
  assume "step e s = Some s'"
  with TimerFired show ?thesis
    by (auto simp: timerCallback_def loadRecommendations_posts split: if_splits)
qed



lemma run_append: "run (xs @ ys) s = Option.bind (run xs s) (run ys)"
  by (induction xs arbitrary: s) (auto split: option.splits)

lemma remove_nth_length: "i < length xs \<Longrightarrow> length (remove_nth i xs) = length xs - 1"
  by (simp add: remove_nth_def)

lemma remove_nth_nth_before: "k < j \<Longrightarrow> k < length xs \<Longrightarrow> remove_nth j xs ! k = xs ! k"
  by (simp add: remove_nth_def nth_append)

lemma remove_nth_nth_after:
  "j < k \<Longrightarrow> k < length xs \<Longrightarrow> remove_nth j xs ! (k - Suc 0) = xs ! k"
  by (auto simp: remove_nth_def nth_append min_def)

lemma loadRecommendations_timers [simp]:
  "timers (loadRecommendations f s) = timers s"
  "selectedFlight (loadRecommendations f s) = selectedFlight s"
  by (simp_all add: loadRecommendations_def)

lemma step_keeps_timer:
  assumes "step e s = Some s'" and "k < length (timers s)" and "timer_shift k e = Some k'"
  shows "k' < length (timers s') \<and> timers s' ! k' = timers s ! k"
proof (cases e)
  case (FlightsSettled out)
  with assms show ?thesis
    by (cases out) (auto split: if_splits)
next
  case (SearchParams p)
  with assms show ?thesis
    by (auto simp: searchParamsEffect_def split: if_splits option.splits)
next
  case (FlightChange f)
  with assms show ?thesis
    by (auto simp: handleFlightChange_def split: if_splits)
next
  case (RecsSettled i out)
  with assms show ?thesis
    by (cases out) (auto split: if_splits)
next
  case (AssignClick r)
  with assms show ?thesis
    by (auto simp: handleAssign_def split: if_splits)
next
  case CancelClick
  with assms show ?thesis
    by (auto split: if_splits)
next
  case ConfirmClick
  with assms show ?thesis
    by (auto simp: confirmAssign_def split: if_splits option.splits)
next
  case (AssignSettled i out)
  with assms show ?thesis
    by (cases out; cases "pendingAssign s ! i") (auto simp: nth_append split: if_splits)
next
  case (TimerFired j)
  with assms have j: "j < length (timers s)" and jk: "j \<noteq> k"
    and s': "timers s' = remove_nth j (timers s)"
    by (auto simp: timerCallback_def split: if_splits)
  show ?thesis
  proof (cases "j < k")
    case True
    with assms TimerFired jk have "k' = k - 1"
      by simp
    with True assms(2) j s' show ?thesis
      by (auto simp: remove_nth_length remove_nth_nth_after)
  next
    case False
    with assms TimerFired jk have "k' = k" and "k < j"
      by simp_all
    with assms(2) j s' show ?thesis
      by (simp add: remove_nth_length remove_nth_nth_before)
  qed
qed

lemma run_keeps_timer:
  "run evs s = Some s' \<Longrightarrow> k < length (timers s) \<Longrightarrow> timer_position k evs = Some k' \<Longrightarrow>
   k' < length (timers s') \<and> timers s' ! k' = timers s ! k"
proof (induction evs arbitrary: s k)
  case Nil
  then show ?case by simp
next
  case (Cons e evs)
  from Cons.prems(1) obtain s1 where e: "step e s = Some s1" and r: "run evs s1 = Some s'"
    by (auto split: option.splits)
  from Cons.prems(3) obtain k1 where k1: "timer_shift k e = Some k1"
    and p: "timer_position k1 evs = Some k'"
    by (auto split: option.splits)
  from e Cons.prems(2) k1 have s1: "k1 < length (timers s1) \<and> timers s1 ! k1 = timers s ! k"
    by (rule step_keeps_timer)
  then have "k1 < length (timers s1)" ..
  with r have "k' < length (timers s') \<and> timers s' ! k' = timers s1 ! k1"
    using p by (rule Cons.IH)
  with s1 show ?case
    by simp
qed

lemma step_keeps_call:
  assumes "assigning s" and "\<not> settles_assignment e" and "step e s = Some s'"
  shows "assigning s' \<and> pendingAssign s' = pendingAssign s"
proof (cases e)
  case (FlightsSettled out)
  with assms show ?thesis
    by (cases out) (auto split: if_splits)
next
  case (SearchParams p)
  with assms show ?thesis
    by (auto simp: searchParamsEffect_def split: if_splits option.splits)
next
  case (FlightChange f)
  with assms show ?thesis
    by (auto simp: handleFlightChange_def split: if_splits)
next
  case (RecsSettled i out)
  with assms show ?thesis
    by (cases out) (auto split: if_splits)
next
  case (AssignClick r)
  with assms show ?thesis
    by (auto simp: handleAssign_def split: if_splits)
next
  case CancelClick
  with assms show ?thesis
    by (auto split: if_splits)
next
  case ConfirmClick
  with assms show ?thesis
    by (auto split: if_splits)
next
  case (AssignSettled i out)
  with assms show ?thesis
    by (simp add: settles_assignment_def)
next
  case (TimerFired j)
  with assms show ?thesis
    by (auto simp: timerCallback_def split: if_splits)
qed

lemma run_keeps_call:
  "assigning s \<Longrightarrow> list_all (\<lambda>e. \<not> settles_assignment e) evs \<Longrightarrow> run evs s = Some s' \<Longrightarrow>
   assigning s' \<and> pendingAssign s' = pendingAssign s"
proof (induction evs arbitrary: s)
  case Nil
  then show ?case by simp
next
  case (Cons e evs)
  from Cons.prems(3) obtain s1 where e: "step e s = Some s1" and r: "run evs s1 = Some s'"
    by (auto split: option.splits)
  from Cons.prems(2) have ne: "\<not> settles_assignment e"
    and rest: "list_all (\<lambda>e. \<not> settles_assignment e) evs"
    by simp_all
  from Cons.prems(1) ne e have s1: "assigning s1 \<and> pendingAssign s1 = pendingAssign s"
    by (rule step_keeps_call)
  then have "assigning s1" ..
  then have "assigning s' \<and> pendingAssign s' = pendingAssign s1"
    using rest r by (rule Cons.IH)
  with s1 show ?case
    by simp
qed

subsection \<open>Loading recommendations\<close>

text \<open>
  C2. A recommendation load with a non-empty flight number sets \<^verbatim>\<open>loading\<close> and issues
  the fetch; when the fetch succeeds \<^verbatim>\<open>recommendations\<close> is the response list, when it
  fails \<^verbatim>\<open>recommendations\<close> is empty, and in both cases \<^verbatim>\<open>loading\<close> is false afterwards,
  whatever state the continuation finds. With the empty flight number the load changes
  nothing.
\<close>

theorem loadRecommendations_contract:
  "(flightNo \<noteq> [] \<longrightarrow>
      loading (loadRecommendations flightNo s) \<and>
      requests (loadRecommendations flightNo s) = requests s @ [getRecommendations flightNo] \<and>
      pendingRecs (loadRecommendations flightNo s) = pendingRecs s @ [flightNo] \<and>
      recommendations (loadRecommendations_run flightNo (Resolved d) s) = d \<and>
      \<not> loading (loadRecommendations_run flightNo (Resolved d) s) \<and>
      recommendations (loadRecommendations_run flightNo (Rejected e) s) = [] \<and>
      \<not> loading (loadRecommendations_run flightNo (Rejected e) s)) \<and>
   recommendations (loadRecommendations_settle (Resolved d) t) = d \<and>
   \<not> loading (loadRecommendations_settle (Resolved d) t) \<and>
   recommendations (loadRecommendations_settle (Rejected e) t) = [] \<and>
   \<not> loading (loadRecommendations_settle (Rejected e) t) \<and>
   (flightNo = [] \<longrightarrow>
      loadRecommendations flightNo s = s \<and> loadRecommendations_run flightNo out s = s)"
  by (simp add: loadRecommendations_def loadRecommendations_run_def)

text \<open>C2 at AI101 (a success, then a failure over a loaded list) and at the empty flight number.\<close>

theorem loadRecommendations_contract_witness:
  "loading (loadRecommendations ''AI101'' initial) \<and>
   requests (loadRecommendations ''AI101'' initial) =
     [\<lparr>verb = GET, url = ''http://localhost:5000/api/recommendations/AI101'', body = None\<rparr>] \<and>
   recommendations (loadRecommendations_run ''AI101'' (Resolved [E1]) initial) = [E1] \<and>
   \<not> loading (loadRecommendations_run ''AI101'' (Resolved [E1]) initial) \<and>
   recommendations (loadRecommendations_run ''AI101'' (Rejected \<lparr>response = None\<rparr>) modal_open) = [] \<and>
   loadRecommendations [] modal_open = modal_open"
  using loadRecommendations_contract
      [of "''AI101''" initial "[E1]" "\<lparr>response = None\<rparr>" initial "Resolved []"]
    loadRecommendations_contract
      [of "''AI101''" modal_open "[E1]" "\<lparr>response = None\<rparr>" initial "Resolved []"]
    loadRecommendations_contract
      [of "[]" modal_open "[E1]" "\<lparr>response = None\<rparr>" initial "Resolved []"]
  by (simp add: initial_def getRecommendations_def axios_get_def API_BASE_def)

text \<open>
  C6. Loading the recommendations of one flight twice, the server answering \<open>L\<close> both
  times, leaves \<^verbatim>\<open>recommendations\<close> equal to \<open>L\<close>, as one load does.
\<close>

theorem reload_idempotent:
  "flightNo \<noteq> [] \<Longrightarrow>
   recommendations (loadRecommendations_run flightNo (Resolved L) s) = L \<and>
   recommendations (loadRecommendations_run flightNo (Resolved L)
                      (loadRecommendations_run flightNo (Resolved L) s)) = L \<and>
   loading (loadRecommendations_run flightNo (Resolved L)
              (loadRecommendations_run flightNo (Resolved L) s)) =
     loading (loadRecommendations_run flightNo (Resolved L) s)"
  by (simp add: loadRecommendations_def loadRecommendations_run_def)

text \<open>C6 at AI101, over a list that held two entries before.\<close>

theorem reload_idempotent_witness:
  "recommendations (loadRecommendations_run ''AI101'' (Resolved [E1])
      (initial\<lparr>recommendations := [E1, E1]\<rparr>)) = [E1] \<and>
   recommendations (loadRecommendations_run ''AI101'' (Resolved [E1])
      (loadRecommendations_run ''AI101'' (Resolved [E1])
         (initial\<lparr>recommendations := [E1, E1]\<rparr>))) = [E1]"
  using reload_idempotent [of "''AI101''" "[E1]" "initial\<lparr>recommendations := [E1, E1]\<rparr>"]
  by simp

text \<open>
  C5, at an input where the code breaks it. The flights and the recommendations of
  AI101 are loaded and the modal is open on E1: the component is on the page and E1 is
  displayed. The user then selects the empty option. No request is sent and
  \<^verbatim>\<open>selectedFlight\<close> is empty, as the claim says; but \<^verbatim>\<open>selectedFlightData\<close> is now
  undefined, the render of the modal throws, and the component is taken off the page:
  the list of the prior flight is not left displayed.
\<close>

theorem empty_selection_under_modal_unmounts:
  "map_option mounted (run before_confirm (mount None)) = Some True \<and>
   map_option recommendations (run before_confirm (mount None)) = Some [E1] \<and>
   map_option assignModal (run before_confirm (mount None)) = Some (Some E1) \<and>
   map_option mounted (run (before_confirm @ [FlightChange []]) (mount None)) = Some False \<and>
   map_option selectedFlight (run (before_confirm @ [FlightChange []]) (mount None)) = Some [] \<and>
   map_option requests (run (before_confirm @ [FlightChange []]) (mount None)) =
     map_option requests (run before_confirm (mount None))"
  by (simp add: scenario_defs)

subsection \<open>The API client\<close>

text \<open>
  C7, as stated, fails: \<^verbatim>\<open>getDashboardStats\<close> is a member of the client, and its
  request, a GET of \<^verbatim>\<open>/dashboard/stats\<close>, is no row of the capability table.
\<close>

theorem getDashboardStats_outside_table:
  "api GetDashboardStats =
     [\<lparr>verb = GET, url = ''http://localhost:5000/api/dashboard/stats'', body = None\<rparr>] \<and>
   \<not> list_all in_capability_table (api GetDashboardStats)"
  by (simp add: getDashboardStats_def axios_get_def API_BASE_def in_capability_table_def)

text \<open>
  C7, amended. Every member of the client issues one request. The seven members the
  table names issue the request of their row, assign crew a POST to
  \<^verbatim>\<open>/crew/{empId}/assign\<close> whose body is the object with the one key
  \<^verbatim>\<open>flight_number\<close>; the eighth, \<^verbatim>\<open>getDashboardStats\<close>, issues a GET of
  \<^verbatim>\<open>/dashboard/stats\<close>.
\<close>

theorem api_one_request_each:
  "length (api c) = 1 \<and>
   api GetAllFlights = [table_request ListFlights] \<and>
   api (GetFlightById flightNo) = [table_request (GetFlight flightNo)] \<and>
   api GetAllCrew = [table_request ListCrew] \<and>
   api (GetCrewById empId) = [table_request (GetCrew empId)] \<and>
   api (GetRecommendations flightNo) = [table_request (GetRecs flightNo)] \<and>
   api (AssignCrewToFlight empId flightNo) = [table_request (AssignCrew empId flightNo)] \<and>
   api (AssignCrewToFlight empId flightNo) =
     [\<lparr>verb = POST, url = ''http://localhost:5000/api/crew/'' @ empId @ ''/assign'',
       body = Some [(''flight_number'', flightNo)]\<rparr>] \<and>
   api HealthCheck = [table_request HealthProbe] \<and>
   api GetDashboardStats =
     [\<lparr>verb = GET, url = ''http://localhost:5000/api/dashboard/stats'', body = None\<rparr>] \<and>
   (c \<noteq> GetDashboardStats \<longrightarrow> list_all in_capability_table (api c))"
proof -
  have one: "length (api c) = 1"
    by (cases c) simp_all
  have tab: "c \<noteq> GetDashboardStats \<longrightarrow> list_all in_capability_table (api c)"
    by (cases c)
      (simp_all add: in_capability_table_def getAllFlights_def getFlightById_def getAllCrew_def
        getCrewById_def getRecommendations_def assignCrewToFlight_def healthCheck_def
        axios_get_def axios_post_def API_BASE_def suffix_def)
  show ?thesis
    using one tab
    by (simp add: table_request_def getDashboardStats_def getAllFlights_def getFlightById_def
        getAllCrew_def getCrewById_def getRecommendations_def assignCrewToFlight_def
        healthCheck_def axios_get_def axios_post_def API_BASE_def)
qed

text \<open>C7, amended, at the assignment of E1 to AI101.\<close>

theorem api_one_request_each_witness:
  "AssignCrewToFlight ''E1'' ''AI101'' \<noteq> GetDashboardStats \<and>
   list_all in_capability_table (api (AssignCrewToFlight ''E1'' ''AI101'')) \<and>
   api (AssignCrewToFlight ''E1'' ''AI101'') =
     [\<lparr>verb = POST, url = ''http://localhost:5000/api/crew/E1/assign'',
       body = Some [(''flight_number'', ''AI101'')]\<rparr>]"
  using api_one_request_each [of "AssignCrewToFlight ''E1'' ''AI101''" "''AI101''" "''E1''"]
  by (simp add: assignCrewToFlight_def axios_post_def API_BASE_def table_request_def)

subsection \<open>The confirmation modal\<close>

text \<open>
  C8. In every state the page reaches, Cancel has no effect while \<^verbatim>\<open>assigning\<close> is true
  or an assignment call is pending; when Cancel does clear \<^verbatim>\<open>assignModal\<close>, no
  assignment call is in flight and nothing else changes.
\<close>

theorem cancel_only_while_not_assigning:
  "run evs (mount p) = Some s \<Longrightarrow>
   (assigning s \<or> pendingAssign s \<noteq> [] \<longrightarrow> step CancelClick s = None) \<and>
   (\<forall>s'. step CancelClick s = Some s' \<longrightarrow>
      \<not> assigning s \<and> pendingAssign s = [] \<and> s' = s\<lparr>assignModal := None\<rparr>)"
proof -
  assume "run evs (mount p) = Some s"
  then have "assign_inv s"
    by (rule run_mount_inv)
  then show ?thesis
    by (auto simp: assign_inv_def modal_rendered_def rerender_no_modal split: if_splits)
qed

text \<open>C8 after the user has confirmed E1 for AI101: the modal is open and Cancel is dead.\<close>

theorem cancel_only_while_not_assigning_witness:
  "map_option assigning (run confirm_scenario (mount None)) = Some True \<and>
   map_option assignModal (run confirm_scenario (mount None)) = Some (Some E1) \<and>
   Option.bind (run confirm_scenario (mount None)) (step CancelClick) = None"
proof -
  obtain s where r: "run confirm_scenario (mount None) = Some s"
    and a: "assigning s" and m: "assignModal s = Some E1"
    by (simp add: scenario_defs)
  from cancel_only_while_not_assigning [OF r] a
  have "step CancelClick s = None"
    by blast
  with r a m show ?thesis
    by (simp del: step.simps)
qed

text \<open>
  C9. In every state the page reaches, at most one assignment call is pending; while
  one is pending \<^verbatim>\<open>assigning\<close> is true, and while \<^verbatim>\<open>assigning\<close> is true Confirm has
  no effect and no event adds a POST to the requests sent, so no second call is
  issued before the first settles.
\<close>

theorem one_assignment_in_flight:
  "run evs (mount p) = Some s \<Longrightarrow>
   length (pendingAssign s) \<le> 1 \<and>
   (pendingAssign s \<noteq> [] \<longrightarrow> assigning s) \<and>
   (assigning s \<longrightarrow> step ConfirmClick s = None) \<and>
   (assigning s \<longrightarrow>
      (\<forall>e s'. step e s = Some s' \<longrightarrow> posts (requests s') = posts (requests s)))"
proof -
  assume "run evs (mount p) = Some s"
  then have "assign_inv s"
    by (rule run_mount_inv)
  then have "length (pendingAssign s) \<le> 1 \<and>
      (pendingAssign s \<noteq> [] \<longrightarrow> assigning s) \<and>
      (assigning s \<longrightarrow> step ConfirmClick s = None)"
    by (auto simp: assign_inv_def split: if_splits)
  then show ?thesis
    using step_posts by blast
qed

text \<open>
  C9 after the user has confirmed E1 for AI101: one call is pending, Confirm is dead,
  and selecting another flight sends no POST.
\<close>

theorem one_assignment_in_flight_witness:
  "map_option pendingAssign (run confirm_scenario (mount None)) = Some [(E1, ''AI101'')] \<and>
   Option.bind (run confirm_scenario (mount None)) (step ConfirmClick) = None \<and>
   map_option (posts \<circ> requests)
     (Option.bind (run confirm_scenario (mount None)) (step (FlightChange ''AI202''))) =
   map_option (posts \<circ> requests) (run confirm_scenario (mount None))"
proof -
  obtain s where r: "run confirm_scenario (mount None) = Some s"
    and q: "pendingAssign s = [(E1, ''AI101'')]" and mt: "mounted s"
    by (simp add: scenario_defs)
  from one_assignment_in_flight [OF r] q
  have c: "step ConfirmClick s = None" and a: "assigning s"
    by simp_all
  have st: "step (FlightChange ''AI202'') s = Some (rerender (handleFlightChange ''AI202'' s))"
    using mt by simp
  from one_assignment_in_flight [OF r] a st
  have "posts (requests (rerender (handleFlightChange ''AI202'' s))) = posts (requests s)"
    by blast
  with r q c st show ?thesis
    by (simp del: step.simps)
qed

subsection \<open>Confirming an assignment\<close>

text \<open>
  C4. \<^verbatim>\<open>confirmAssign\<close> changes nothing when \<^verbatim>\<open>assignModal\<close> is absent. Otherwise it
  sets \<^verbatim>\<open>assigning\<close> and issues the assignment POST for \<^verbatim>\<open>assignModal.emp_id\<close> and
  \<^verbatim>\<open>selectedFlight\<close>; when that call succeeds, in whatever state \<open>t\<close> the page then is,
  \<^verbatim>\<open>assignSuccess\<close> becomes the notice with \<^verbatim>\<open>assignModal.name\<close> and \<^verbatim>\<open>selectedFlight\<close>,
  \<^verbatim>\<open>assignModal\<close> is cleared, \<^verbatim>\<open>assigning\<close> is false, and one timer of 3000 ms is added.
  The callback of that timer is the reload and the clearing: fired, it is removed, it
  fetches the recommendations of that \<^verbatim>\<open>selectedFlight\<close> (not empty) with \<^verbatim>\<open>loading\<close>
  set, and it clears \<^verbatim>\<open>assignSuccess\<close>.
\<close>

theorem confirmAssign_contract:
  "(assignModal s = None \<longrightarrow> confirmAssign s = s) \<and>
   (assignModal s = Some m \<longrightarrow>
      assigning (confirmAssign s) \<and>
      requests (confirmAssign s) =
        requests s @ [\<lparr>verb = POST, url = API_BASE @ ''/crew/'' @ emp_id m @ ''/assign'',
                       body = Some [(''flight_number'', selectedFlight s)]\<rparr>] \<and>
      pendingAssign (confirmAssign s) = pendingAssign s @ [(m, selectedFlight s)] \<and>
      step (AssignSettled (length (pendingAssign s)) (Resolved d)) (confirmAssign s) =
        Some (confirmAssign_settle (m, selectedFlight s) (Resolved d)
                (s\<lparr>assigning := True, requests := requests (confirmAssign s)\<rparr>)) \<and>
      assignSuccess (confirmAssign_settle (m, selectedFlight s) (Resolved d) t) =
        Some \<lparr>crewName = name m, noticeFlightNumber = selectedFlight s\<rparr> \<and>
      assignModal (confirmAssign_settle (m, selectedFlight s) (Resolved d) t) = None \<and>
      timers (confirmAssign_settle (m, selectedFlight s) (Resolved d) t) =
        timers t @ [(3000, selectedFlight s)] \<and>
      \<not> assigning (confirmAssign_settle (m, selectedFlight s) (Resolved d) t) \<and>
      (\<exists>u. step (TimerFired (length (timers t)))
                (confirmAssign_settle (m, selectedFlight s) (Resolved d) t) = Some u \<and>
           timers u = timers t \<and>
           assignSuccess u = None \<and>
           assignModal u = None \<and>
           selectedFlight u = selectedFlight t \<and>
           recommendations u = recommendations t \<and>
           (selectedFlight s \<noteq> [] \<longrightarrow>
              loading u \<and>
              pendingRecs u = pendingRecs t @ [selectedFlight s] \<and>
              requests u = requests t @ [getRecommendations (selectedFlight s)]) \<and>
           (selectedFlight s = [] \<longrightarrow>
              loading u = loading t \<and> pendingRecs u = pendingRecs t \<and>
              requests u = requests t)))"
  by (simp add: confirmAssign_def assignCrewToFlight_def axios_post_def remove_nth_def
      timerCallback_def loadRecommendations_def rerender_no_modal)

text \<open>C4 on the initial page (no modal) and on the page with the modal open on E1.\<close>

theorem confirmAssign_contract_witness:
  "confirmAssign initial = initial \<and>
   requests (confirmAssign modal_open) =
     [\<lparr>verb = POST, url = ''http://localhost:5000/api/crew/E1/assign'',
       body = Some [(''flight_number'', ''AI101'')]\<rparr>] \<and>
   map_option assignSuccess (step (AssignSettled 0 (Resolved ''ok'')) (confirmAssign modal_open)) =
     Some (Some \<lparr>crewName = ''Asha Rao'', noticeFlightNumber = ''AI101''\<rparr>) \<and>
   map_option assignModal (step (AssignSettled 0 (Resolved ''ok'')) (confirmAssign modal_open)) =
     Some None \<and>
   map_option timers (step (AssignSettled 0 (Resolved ''ok'')) (confirmAssign modal_open)) =
     Some [(3000, ''AI101'')] \<and>
   map_option requests
     (Option.bind (step (AssignSettled 0 (Resolved ''ok'')) (confirmAssign modal_open))
        (step (TimerFired 0))) =
     Some [assignCrewToFlight ''E1'' ''AI101'', getRecommendations ''AI101''] \<and>
   map_option assignSuccess
     (Option.bind (step (AssignSettled 0 (Resolved ''ok'')) (confirmAssign modal_open))
        (step (TimerFired 0))) = Some None"
proof -
  let ?t = "modal_open\<lparr>assigning := True, requests := requests (confirmAssign modal_open)\<rparr>"
  have n: "assignModal initial = None"
    by (simp add: initial_def)
  have m: "assignModal modal_open = Some E1" "selectedFlight modal_open = ''AI101''"
    "requests modal_open = []" "pendingAssign modal_open = []" "timers modal_open = []"
    by (simp_all add: modal_open_def initial_def)
  have e: "emp_id E1 = ''E1''" "name E1 = ''Asha Rao''"
    by (simp_all add: E1_def)
  have q: "requests (confirmAssign modal_open) = [assignCrewToFlight ''E1'' ''AI101'']"
    by (simp add: confirmAssign_def m e)
  from confirmAssign_contract [of initial E1 "''ok''" initial] n
  have i: "confirmAssign initial = initial"
    by simp
  from confirmAssign_contract [of modal_open E1 "''ok''" ?t] m e q
  obtain u where s: "step (AssignSettled 0 (Resolved ''ok'')) (confirmAssign modal_open) =
      Some (confirmAssign_settle (E1, ''AI101'') (Resolved ''ok'') ?t)"
    and a: "assignSuccess (confirmAssign_settle (E1, ''AI101'') (Resolved ''ok'') ?t) =
      Some \<lparr>crewName = ''Asha Rao'', noticeFlightNumber = ''AI101''\<rparr>"
      "assignModal (confirmAssign_settle (E1, ''AI101'') (Resolved ''ok'') ?t) = None"
      "timers (confirmAssign_settle (E1, ''AI101'') (Resolved ''ok'') ?t) = [(3000, ''AI101'')]"
    and f: "step (TimerFired 0) (confirmAssign_settle (E1, ''AI101'') (Resolved ''ok'') ?t) = Some u"
      "assignSuccess u = None"
      "requests u = [assignCrewToFlight ''E1'' ''AI101'', getRecommendations ''AI101'']"
    by (auto simp del: step.simps confirmAssign_settle.simps)
  from i q s a f show ?thesis
    by (simp add: assignCrewToFlight_def axios_post_def API_BASE_def
        del: step.simps confirmAssign_settle.simps)
qed

text \<open>
  C10. When an assignment call fails, its continuation changes no slot but \<^verbatim>\<open>assigning\<close>,
  which it sets to false, and schedules no timer and sends no request. From Confirm to
  the failure, with nothing in between, the page is back in the state before the call,
  up to the request sent, the console line and the alert.
\<close>

theorem failed_assignment_frame:
  "(i < length (pendingAssign t) \<longrightarrow>
      (\<exists>t'. step (AssignSettled i (Rejected e)) t = Some t' \<and>
         flights t' = flights t \<and> selectedFlight t' = selectedFlight t \<and>
         recommendations t' = recommendations t \<and> loading t' = loading t \<and>
         assignModal t' = assignModal t \<and> assignSuccess t' = assignSuccess t \<and>
         timers t' = timers t \<and> requests t' = requests t \<and>
         pendingRecs t' = pendingRecs t \<and> pendingFlights t' = pendingFlights t \<and>
         \<not> assigning t')) \<and>
   (step ConfirmClick s0 = Some s1 \<longrightarrow>
      (\<exists>s2. step (AssignSettled (length (pendingAssign s0)) (Rejected e)) s1 = Some s2 \<and>
         s2 = s0\<lparr>requests := requests s1,
                 console := console s0 @ [''Assignment failed:''],
                 alerts := alerts s0 @ [''Error: '' @ errorMsg e]\<rparr> \<and>
         flights s2 = flights s0 \<and> selectedFlight s2 = selectedFlight s0 \<and>
         recommendations s2 = recommendations s0 \<and> loading s2 = loading s0 \<and>
         assignModal s2 = assignModal s0 \<and> assignSuccess s2 = assignSuccess s0 \<and>
         assigning s2 = assigning s0 \<and> timers s2 = timers s0))"
proof -
  have settle: "i < length (pendingAssign t) \<longrightarrow>
      (\<exists>t'. step (AssignSettled i (Rejected e)) t = Some t' \<and>
         flights t' = flights t \<and> selectedFlight t' = selectedFlight t \<and>
         recommendations t' = recommendations t \<and> loading t' = loading t \<and>
         assignModal t' = assignModal t \<and> assignSuccess t' = assignSuccess t \<and>
         timers t' = timers t \<and> requests t' = requests t \<and>
         pendingRecs t' = pendingRecs t \<and> pendingFlights t' = pendingFlights t \<and>
         \<not> assigning t')"
    by (cases "pendingAssign t ! i") simp
  have whole: "step ConfirmClick s0 = Some s1 \<longrightarrow>
      (\<exists>s2. step (AssignSettled (length (pendingAssign s0)) (Rejected e)) s1 = Some s2 \<and>
         s2 = s0\<lparr>requests := requests s1,
                 console := console s0 @ [''Assignment failed:''],
                 alerts := alerts s0 @ [''Error: '' @ errorMsg e]\<rparr> \<and>
         flights s2 = flights s0 \<and> selectedFlight s2 = selectedFlight s0 \<and>
         recommendations s2 = recommendations s0 \<and> loading s2 = loading s0 \<and>
         assignModal s2 = assignModal s0 \<and> assignSuccess s2 = assignSuccess s0 \<and>
         assigning s2 = assigning s0 \<and> timers s2 = timers s0)"
    by (auto simp: confirmAssign_def remove_nth_def modal_rendered_def rerender_def
        render_throws_def selectedFlightData_def split: if_splits)
  from settle whole show ?thesis
    by (rule conjI)
qed

text \<open>C10 on the page with the modal open on E1, the server refusing with a message.\<close>

theorem failed_assignment_frame_witness:
  "step ConfirmClick modal_open = Some (confirmAssign modal_open) \<and>
   step (AssignSettled 0 (Rejected server_refusal)) (confirmAssign modal_open) =
     Some (modal_open\<lparr>requests := [assignCrewToFlight ''E1'' ''AI101''],
             console := [''Assignment failed:''],
             alerts := [''Error: Crew already assigned'']\<rparr>)"
proof -
  have c: "step ConfirmClick modal_open = Some (confirmAssign modal_open)"
    by (simp add: modal_open_def initial_def modal_rendered_def rerender_def render_throws_def
        selectedFlightData_def confirmAssign_def AI101_def)
  have e: "errorMsg server_refusal = ''Crew already assigned''"
    by (simp add: errorMsg_def errorField_def js_or_def server_refusal_def)
  have p: "pendingAssign modal_open = []"
    "requests (confirmAssign modal_open) = [assignCrewToFlight ''E1'' ''AI101'']"
    "console modal_open = []" "alerts modal_open = []"
    by (simp_all add: modal_open_def initial_def confirmAssign_def E1_def)
  from failed_assignment_frame
         [of 0 "confirmAssign modal_open" server_refusal modal_open "confirmAssign modal_open"] c
  show ?thesis
    by (simp add: e p del: step.simps)
qed

text \<open>
  C3, as stated, fails: when the server's \<^verbatim>\<open>error\<close> field is present and is the empty
  string, the alert shows the fallback, not the field.
\<close>

theorem empty_error_field_falls_back:
  "errorField empty_refusal = Some [] \<and>
   errorMsg empty_refusal = ''Failed to assign crew'' \<and>
   alerts (confirmAssign_settle (E1, ''AI101'') (Rejected empty_refusal) modal_open) =
     [''Error: Failed to assign crew'']"
  by (simp add: errorMsg_def errorField_def js_or_def empty_refusal_def modal_open_def initial_def)

text \<open>
  C3, amended. When an assignment call of a reachable state fails, the page alerts
  \<^verbatim>\<open>Error: \<close> followed by the server's \<^verbatim>\<open>error\<close> field when that field is present and
  not empty, and by \<^verbatim>\<open>Failed to assign crew\<close> when the response, its data or the field is
  missing or the field is empty; \<^verbatim>\<open>assignModal\<close> is as before and is set; \<^verbatim>\<open>assigning\<close>
  is false.
\<close>

theorem failed_assignment_alert:
  "run evs (mount p) = Some s \<Longrightarrow> i < length (pendingAssign s) \<Longrightarrow>
   (\<exists>s'. step (AssignSettled i (Rejected e)) s = Some s' \<and>
      alerts s' = alerts s @ [''Error: '' @ errorMsg e] \<and>
      assignModal s' = assignModal s \<and> assignModal s' \<noteq> None \<and>
      \<not> assigning s') \<and>
   (\<forall>m. errorField e = Some m \<and> m \<noteq> [] \<longrightarrow> errorMsg e = m) \<and>
   (errorField e = None \<or> errorField e = Some [] \<longrightarrow> errorMsg e = ''Failed to assign crew'') \<and>
   errorField \<lparr>response = None\<rparr> = None \<and>
   errorField \<lparr>response = Some \<lparr>data = None\<rparr>\<rparr> = None \<and>
   errorField \<lparr>response = Some \<lparr>data = Some \<lparr>error = x\<rparr>\<rparr>\<rparr> = x"
proof -
  assume r: "run evs (mount p) = Some s" and i: "i < length (pendingAssign s)"
  from r have "assign_inv s"
    by (rule run_mount_inv)
  with i have "assigning s" "assignModal s \<noteq> None"
    by (auto simp: assign_inv_def split: if_splits)
  with i have "\<exists>s'. step (AssignSettled i (Rejected e)) s = Some s' \<and>
      alerts s' = alerts s @ [''Error: '' @ errorMsg e] \<and>
      assignModal s' = assignModal s \<and> assignModal s' \<noteq> None \<and>
      \<not> assigning s'"
    by (cases "pendingAssign s ! i") simp
  then show ?thesis
    by (simp add: errorMsg_def errorField_def js_or_def)
qed

text \<open>C3, amended, after the user has confirmed E1 for AI101, the server refusing with a message.\<close>

theorem failed_assignment_alert_witness:
  "map_option alerts (Option.bind (run confirm_scenario (mount None))
      (step (AssignSettled 0 (Rejected server_refusal)))) = Some [''Error: Crew already assigned''] \<and>
   map_option assignModal (Option.bind (run confirm_scenario (mount None))
      (step (AssignSettled 0 (Rejected server_refusal)))) = Some (Some E1) \<and>
   map_option assigning (Option.bind (run confirm_scenario (mount None))
      (step (AssignSettled 0 (Rejected server_refusal)))) = Some False \<and>
   errorMsg \<lparr>response = None\<rparr> = ''Failed to assign crew''"
proof -
  obtain s where r: "run confirm_scenario (mount None) = Some s"
    and q: "0 < length (pendingAssign s)" and m: "assignModal s = Some E1" and a: "alerts s = []"
    by (simp add: scenario_defs)
  have e: "errorField server_refusal = Some ''Crew already assigned''"
    by (simp add: errorField_def server_refusal_def)
  from failed_assignment_alert [OF r q, of server_refusal] e
  have "errorMsg server_refusal = ''Crew already assigned''"
    by simp
  with failed_assignment_alert [OF r q, of server_refusal]
    failed_assignment_alert [OF r q, of "\<lparr>response = None\<rparr>"] r q m a
  show ?thesis
    by (auto simp del: step.simps)
qed

subsection \<open>The delayed reload\<close>

text \<open>
  C1, as stated, fails. E1 is confirmed for AI101 and the call succeeds; the user then
  selects AI202, which fetches the recommendations of AI202; the timer then fires with
  AI202 selected, and the request it adds is the fetch for AI101.
\<close>

theorem delayed_reload_ignores_new_selection:
  "map_option selectedFlight (run selection_changed (mount None)) = Some ''AI202'' \<and>
   map_option timers (run selection_changed (mount None)) = Some [(3000, ''AI101'')] \<and>
   map_option requests (run selection_changed (mount None)) =
     Some [getAllFlights, getRecommendations ''AI101'', assignCrewToFlight ''E1'' ''AI101'',
           getRecommendations ''AI202''] \<and>
   map_option requests (run reload_scenario (mount None)) =
     Some [getAllFlights, getRecommendations ''AI101'', assignCrewToFlight ''E1'' ''AI101'',
           getRecommendations ''AI202'', getRecommendations ''AI101''] \<and>
   map_option selectedFlight (run reload_scenario (mount None)) = Some ''AI202'' \<and>
   getRecommendations ''AI101'' \<noteq> getRecommendations ''AI202''"
  by (simp add: scenario_defs getRecommendations_def axios_get_def)

text \<open>
  C1, amended. Take any state \<open>s0\<close> the page reaches and confirm there. Whatever
  happens before the call settles (\<open>evs1\<close>: any events, flight selections among them;
  the call is the only one pending, so none is a settlement of an assignment), the
  success of the call sets one timer of 3000 ms that carries the \<^verbatim>\<open>selectedFlight\<close> of
  \<open>s0\<close>. Whatever happens then (\<open>evs2\<close>: any events that leave this timer pending, at
  position \<open>k\<close>), the timer, when it fires, clears \<^verbatim>\<open>assignSuccess\<close>, leaves
  \<^verbatim>\<open>selectedFlight\<close> alone and issues the recommendation fetch for the
  \<^verbatim>\<open>selectedFlight\<close> of \<open>s0\<close> (none if that is empty), not for the flight selected when
  it fires.
\<close>

theorem delayed_reload_targets_captured_flight:
  assumes "run evs0 (mount p) = Some s0"
    and "step ConfirmClick s0 = Some s1"
    and "run evs1 s1 = Some s2"
    and "list_all (\<lambda>e. \<not> settles_assignment e) evs1"
  shows "\<exists>s3. step (AssignSettled 0 (Resolved d)) s2 = Some s3 \<and>
           timers s3 = timers s2 @ [(3000, selectedFlight s0)] \<and>
           (\<forall>evs2 s4 k.
              run evs2 s3 = Some s4 \<and> timer_position (length (timers s2)) evs2 = Some k \<longrightarrow>
              (\<exists>s5. step (TimerFired k) s4 = Some s5 \<and>
                    assignSuccess s5 = None \<and>
                    selectedFlight s5 = selectedFlight s4 \<and>
                    requests s5 =
                      requests s4 @
                      (if selectedFlight s0 = [] then []
                       else [getRecommendations (selectedFlight s0)])))"
proof -
  from assms(1) have "assign_inv s0"
    by (rule run_mount_inv)
  with assms(2) obtain m where m: "assignModal s0 = Some m" and p0: "pendingAssign s0 = []"
    by (auto simp: assign_inv_def modal_rendered_def split: if_splits)
  with assms(2) have s1: "assigning s1" "pendingAssign s1 = [(m, selectedFlight s0)]"
    by (auto simp: confirmAssign_def split: if_splits)
  from s1(1) assms(4) assms(3) have "assigning s2 \<and> pendingAssign s2 = pendingAssign s1"
    by (rule run_keeps_call)
  with s1 have p2: "pendingAssign s2 = [(m, selectedFlight s0)]"
    by simp
  define s3 where "s3 = rerender (confirmAssign_settle (m, selectedFlight s0) (Resolved d)
    (s2\<lparr>pendingAssign := remove_nth 0 (pendingAssign s2)\<rparr>))"
  have st: "step (AssignSettled 0 (Resolved d)) s2 = Some s3"
    by (simp add: p2 s3_def)
  have t3: "timers s3 = timers s2 @ [(3000, selectedFlight s0)]"
    by (simp add: s3_def)
  have fire: "\<exists>s5. step (TimerFired k) s4 = Some s5 \<and> assignSuccess s5 = None \<and>
      selectedFlight s5 = selectedFlight s4 \<and>
      requests s5 = requests s4 @
        (if selectedFlight s0 = [] then [] else [getRecommendations (selectedFlight s0)])"
    if r: "run evs2 s3 = Some s4" and k: "timer_position (length (timers s2)) evs2 = Some k"
    for evs2 s4 k
  proof -
    have "length (timers s2) < length (timers s3)"
      by (simp add: t3)
    with r have "k < length (timers s4) \<and> timers s4 ! k = timers s3 ! length (timers s2)"
      using k by (rule run_keeps_timer)
    then have "k < length (timers s4)" "snd (timers s4 ! k) = selectedFlight s0"
      by (simp_all add: t3)
    then show ?thesis
      by (simp add: timerCallback_def loadRecommendations_def)
  qed
  from st t3 fire show ?thesis
    by blast
qed

text \<open>
  C1, amended, on a run where the user selects AI202 while the call for AI101 is
  pending and the recommendations of AI202 arrive before the timer fires.
\<close>

theorem delayed_reload_targets_captured_flight_witness:
  "map_option selectedFlight
     (run (before_confirm @ [ConfirmClick] @ while_pending @ [AssignSettled 0 (Resolved ''ok'')] @
           before_timer @ [TimerFired 0]) (mount None)) = Some ''AI202'' \<and>
   map_option assignSuccess
     (run (before_confirm @ [ConfirmClick] @ while_pending @ [AssignSettled 0 (Resolved ''ok'')] @
           before_timer @ [TimerFired 0]) (mount None)) = Some None \<and>
   map_option requests
     (run (before_confirm @ [ConfirmClick] @ while_pending @ [AssignSettled 0 (Resolved ''ok'')] @
           before_timer @ [TimerFired 0]) (mount None)) =
     Some [getAllFlights, getRecommendations ''AI101'', assignCrewToFlight ''E1'' ''AI101'',
           getRecommendations ''AI202'', getRecommendations ''AI101'']"
proof -
  obtain s0 where r0: "run before_confirm (mount None) = Some s0"
    and f0: "selectedFlight s0 = ''AI101''"
    and d0: "step ConfirmClick s0 = Some (rerender (confirmAssign s0))"
    by (simp add: scenario_defs)
  obtain s2 where r1: "run while_pending (rerender (confirmAssign s0)) = Some s2"
    and f2: "timers s2 = []"
    using r0 [symmetric] by (simp add: scenario_defs)
  have n: "list_all (\<lambda>e. \<not> settles_assignment e) while_pending"
    by (simp add: while_pending_def settles_assignment_def)
  from delayed_reload_targets_captured_flight [OF r0 d0 r1 n, of "''ok''"] f0 f2
  obtain s3 where r2: "step (AssignSettled 0 (Resolved ''ok'')) s2 = Some s3"
    and fire: "\<And>evs2 s4 k. run evs2 s3 = Some s4 \<Longrightarrow> timer_position 0 evs2 = Some k \<Longrightarrow>
      \<exists>s5. step (TimerFired k) s4 = Some s5 \<and> assignSuccess s5 = None \<and>
        selectedFlight s5 = selectedFlight s4 \<and>
        requests s5 = requests s4 @ [getRecommendations ''AI101'']"
    by auto
  obtain s4 where r3: "run before_timer s3 = Some s4"
    and f4: "selectedFlight s4 = ''AI202''"
      "requests s4 = [getAllFlights, getRecommendations ''AI101'',
         assignCrewToFlight ''E1'' ''AI101'', getRecommendations ''AI202'']"
    using r0 [symmetric] r1 [symmetric] r2 [symmetric] by (simp add: scenario_defs)
  have "timer_position 0 before_timer = Some 0"
    by (simp add: before_timer_def)
  with fire [OF r3] obtain s5 where r4: "step (TimerFired 0) s4 = Some s5"
    and f5: "assignSuccess s5 = None" "selectedFlight s5 = selectedFlight s4"
      "requests s5 = requests s4 @ [getRecommendations ''AI101'']"
    by blast
  have "run (before_confirm @ [ConfirmClick] @ while_pending @
      [AssignSettled 0 (Resolved ''ok'')] @ before_timer @ [TimerFired 0]) (mount None) = Some s5"
    using r0 d0 r1 r2 r3 r4 by (simp add: run_append del: step.simps)
  with f4 f5 show ?thesis
    by simp
qed

end
